theory Spec2Isabelle
  imports Complex_Main
begin

section \<open>The Bravyi-Kitaev super-fast mapper (bksf.py)\<close>

text \<open>
  The development follows \<^verbatim>\<open>qiskit_nature/mappers/second_quantization/bksf.py\<close>.
  Python exceptions are values of the type \<open>error\<close>; a function that may raise returns
  \<open>error + 'a\<close> with \<open>Inl\<close> for the exception. Mode indices and operator counts are
  natural numbers (they come from \<^verbatim>\<open>enumerate\<close>, from counters started at 0 and
  from \<^verbatim>\<open>np.nonzero\<close>).
\<close>

datatype error =
    ValueError string
  | IndexError
  | TypeError

subsection \<open>Term analysis\<close>

text \<open>A factor is a pair \<^verbatim>\<open>(i, c)\<close> of a mode index and one of the characters \<^verbatim>\<open>+ - N\<close>.\<close>

type_synonym fac = "nat \<times> char"

type_synonym counts = "nat \<times> nat \<times> nat"

text \<open>
  The loop of \<^verbatim>\<open>_unpack_term\<close> over \<^verbatim>\<open>enumerate(term_str)\<close>: the position \<open>i\<close>, the
  rest of the string, and the loop state (the three counters and the list \<^verbatim>\<open>facs\<close>).
\<close>

fun unpack_loop ::
  "bool \<Rightarrow> nat \<Rightarrow> string \<Rightarrow> counts \<times> fac list \<Rightarrow> error + (counts \<times> fac list)" where
  "unpack_loop expand_number_op i [] st = Inr st"
| "unpack_loop expand_number_op i (c # cs) ((n_number, n_raise, n_lower), facs) =
     (if c = CHR ''I'' then
        unpack_loop expand_number_op (Suc i) cs ((n_number, n_raise, n_lower), facs)
      else if c = CHR ''+'' then
        unpack_loop expand_number_op (Suc i) cs
          ((n_number, n_raise + 1, n_lower), facs @ [(i, CHR ''+'')])
      else if c = CHR ''-'' then
        unpack_loop expand_number_op (Suc i) cs
          ((n_number, n_raise, n_lower + 1), facs @ [(i, CHR ''-'')])
      else if c = CHR ''N'' then
        (if expand_number_op then
           unpack_loop expand_number_op (Suc i) cs
             ((n_number + 1, n_raise, n_lower), facs @ [(i, CHR ''+''), (i, CHR ''-'')])
         else
           unpack_loop expand_number_op (Suc i) cs
             ((n_number + 1, n_raise, n_lower), facs @ [(i, CHR ''N'')]))
      else Inl (ValueError ''Unexpected operator in term.''))"

definition unpack_term :: "string \<Rightarrow> bool \<Rightarrow> error + (counts \<times> fac list)" where
  "unpack_term term_str expand_number_op =
     unpack_loop expand_number_op 0 term_str ((0, 0, 0), [])"

definition interaction_type :: "nat \<Rightarrow> nat \<Rightarrow> nat \<Rightarrow> error + string" where
  "interaction_type n_number n_raise n_lower =
     (if n_raise = 0 \<and> n_lower = 0 then
        (if n_number = 1 then Inr ''number''
         else if n_number = 2 then Inr ''coulomb_exchange''
         else Inl (ValueError ''unexpected number of number operators''))
      else if n_raise = 1 \<and> n_lower = 1 then
        (if n_number = 1 then Inr ''number_excitation''
         else if n_number = 0 then Inr ''excitation''
         else Inl (ValueError ''unexpected number of number operators''))
      else if n_raise = 2 \<and> n_lower = 2 then Inr ''double_excitation''
      else Inl (ValueError ''unexpected number of operators''))"


subsection \<open>Reordering to physicists' index order\<close>

definition to_physicist_index_order :: "fac list \<Rightarrow> error + (fac list \<times> int)" where
  "to_physicist_index_order facs =
     (let ops = map snd facs in
      if ops = [CHR ''+'', CHR ''+'', CHR ''-'', CHR ''-''] then Inr (facs, 1)
      else if ops = [CHR ''+'', CHR ''-'', CHR ''+'', CHR ''-''] then
        Inr ([facs ! 0, facs ! 2, facs ! 1, facs ! 3], - 1)
      else if ops = [CHR ''+'', CHR ''-'', CHR ''-'', CHR ''+''] then
        Inr ([facs ! 0, facs ! 3, facs ! 1, facs ! 2], 1)
      else Inl (ValueError ''unexpected sequence of operators''))"

subsection \<open>Weighted Pauli sums\<close>

text \<open>
  Modelled from the spec: the sparse weighted-Pauli-string algebra (the classes
  \<^verbatim>\<open>Pauli\<close> and \<^verbatim>\<open>SparsePauliOp\<close> of the quantum-information library) is an external
  collaborator of the mapper. Following the spec's interface, a weighted Pauli term is a
  complex coefficient with a boolean pair (z-vector, x-vector), one bit of each per qubit
  (00 = I, 10 = Z, 01 = X, 11 = Y), and a weighted sum is the list of its terms. Addition
  appends the term lists, scalar multiplication scales every coefficient, and operator
  multiplication multiplies term by term, combining the bit vectors by exclusive or and
  the coefficients with the phase of the single-qubit products
  (X.Y = iZ, Y.Z = iX, Z.X = iY and their reverses with -i). Coefficients are exact
  complex numbers.
\<close>

record pauli_term =
  coeff :: complex
  zvec :: "bool list"
  xvec :: "bool list"

datatype sparse_pauli_op = SparsePauliOp (terms: "pauli_term list")

text \<open>\<^verbatim>\<open>SparsePauliOp(Pauli((v, w)))\<close>: one term with coefficient 1.\<close>

definition Pauli :: "bool list \<times> bool list \<Rightarrow> sparse_pauli_op" where
  "Pauli vw = SparsePauliOp [\<lparr>coeff = 1, zvec = fst vw, xvec = snd vw\<rparr>]"

definition plus_i :: "bool \<times> bool \<Rightarrow> bool \<times> bool \<Rightarrow> bool" where
  "plus_i zx1 zx2 =
     (let z1 = fst zx1; x1 = snd zx1; z2 = fst zx2; x2 = snd zx2 in
      (x1 \<and> \<not> z1 \<and> x2 \<and> z2) \<or> (x1 \<and> z1 \<and> \<not> x2 \<and> z2) \<or> (\<not> x1 \<and> z1 \<and> x2 \<and> \<not> z2))"

definition phase_of :: "pauli_term \<Rightarrow> pauli_term \<Rightarrow> complex" where
  "phase_of a b =
     (let q1 = zip (zvec a) (xvec a); q2 = zip (zvec b) (xvec b) in
      \<i> ^ length (filter (\<lambda>(s, t). plus_i s t) (zip q1 q2)) *
      (- \<i>) ^ length (filter (\<lambda>(s, t). plus_i t s) (zip q1 q2)))"

definition term_dot :: "pauli_term \<Rightarrow> pauli_term \<Rightarrow> pauli_term" where
  "term_dot a b =
     \<lparr>coeff = coeff a * coeff b * phase_of a b,
      zvec = map2 (\<lambda>s t. s \<noteq> t) (zvec a) (zvec b),
      xvec = map2 (\<lambda>s t. s \<noteq> t) (xvec a) (xvec b)\<rparr>"

definition smul :: "complex \<Rightarrow> sparse_pauli_op \<Rightarrow> sparse_pauli_op" where
  "smul c a = SparsePauliOp (map (\<lambda>t. t\<lparr>coeff := c * coeff t\<rparr>) (terms a))"

text \<open>
  The operators of the source: \<^verbatim>\<open>a + b\<close>, \<^verbatim>\<open>-a\<close>, \<^verbatim>\<open>a - b\<close>, and \<^verbatim>\<open>a * b\<close>, the
  operator product with \<open>a\<close> on the left.
\<close>

instantiation sparse_pauli_op :: "{plus, uminus, minus, times}"
begin

definition plus_sparse_pauli_op :: "sparse_pauli_op \<Rightarrow> sparse_pauli_op \<Rightarrow> sparse_pauli_op" where
  "plus_sparse_pauli_op a b = SparsePauliOp (terms a @ terms b)"

definition uminus_sparse_pauli_op :: "sparse_pauli_op \<Rightarrow> sparse_pauli_op" where
  "uminus_sparse_pauli_op a = smul (- 1) a"

definition minus_sparse_pauli_op :: "sparse_pauli_op \<Rightarrow> sparse_pauli_op \<Rightarrow> sparse_pauli_op" where
  "minus_sparse_pauli_op a b = a + (- b)"

definition times_sparse_pauli_op :: "sparse_pauli_op \<Rightarrow> sparse_pauli_op \<Rightarrow> sparse_pauli_op" where
  "times_sparse_pauli_op a b =
     SparsePauliOp (concat (map (\<lambda>s. map (\<lambda>t. term_dot s t) (terms b)) (terms a)))"

instance ..

end

text \<open>\<^verbatim>\<open>a & b\<close>: composition, the operator product with \<open>b\<close> on the left.\<close>

definition compose :: "sparse_pauli_op \<Rightarrow> sparse_pauli_op \<Rightarrow> sparse_pauli_op" where
  "compose a b =
     SparsePauliOp (concat (map (\<lambda>s. map (\<lambda>t. term_dot t s) (terms b)) (terms a)))"

definition pauli_id :: "nat \<Rightarrow> sparse_pauli_op" where
  "pauli_id n_qubits = Pauli (replicate n_qubits False, replicate n_qubits False)"

subsection \<open>Edge operators\<close>

text \<open>
  The edge list is a \<open>2 \<times> E\<close> array; it is the list of its \<open>E\<close> columns, each a pair
  (from, to), so \<^verbatim>\<open>edge_list.shape[1]\<close> is its length.
\<close>

type_synonym edge_list = "(nat \<times> nat) list"

definition entry :: "edge_list \<Rightarrow> nat \<Rightarrow> nat \<Rightarrow> nat" where
  "entry edge_list r c = (if r = 0 then fst (edge_list ! c) else snd (edge_list ! c))"

text \<open>
  \<^verbatim>\<open>np.asarray(np.where(edge_list == i))\<close>: the (row, column) positions of the entries
  equal to \<open>i\<close>, in row-major order.
\<close>

definition np_where_eq :: "edge_list \<Rightarrow> nat \<Rightarrow> (nat \<times> nat) list" where
  "np_where_eq edge_list i =
     map (\<lambda>k. (0, k)) (filter (\<lambda>k. fst (edge_list ! k) = i) [0..<length edge_list]) @
     map (\<lambda>k. (1, k)) (filter (\<lambda>k. snd (edge_list ! k) = i) [0..<length edge_list])"

text \<open>Assignment \<^verbatim>\<open>w[p] = b\<close> to an array: a negative index counts from the end.\<close>

definition np_setitem :: "bool list \<Rightarrow> int \<Rightarrow> bool \<Rightarrow> error + bool list" where
  "np_setitem w p b =
     (let n = int (length w); k = (if p < 0 then p + n else p) in
      if 0 \<le> k \<and> k < n then Inr (w[nat k := b]) else Inl IndexError)"

text \<open>The search loop for the position of the edge, left by \<^verbatim>\<open>break\<close> at the first match.\<close>

fun position_loop :: "nat \<Rightarrow> nat \<Rightarrow> nat \<Rightarrow> edge_list \<Rightarrow> int" where
  "position_loop i j edge_index [] = - 1"
| "position_loop i j edge_index (col # cols) =
     (if {i, j} = {fst col, snd col} then int edge_index
      else position_loop i j (Suc edge_index) cols)"

text \<open>
  The two loops over \<^verbatim>\<open>qubit_position_i\<close> and \<^verbatim>\<open>qubit_position_j\<close>: for each entry
  equal to the mode, look at the other row of the same column.
\<close>

definition other_row :: "nat \<Rightarrow> nat" where
  "other_row i_i = (if i_i = 0 then 1 else 0)"

fun incident_loop :: "edge_list \<Rightarrow> (nat \<times> nat) list \<Rightarrow> nat \<Rightarrow> bool list \<Rightarrow> bool list" where
  "incident_loop edge_list [] bound v = v"
| "incident_loop edge_list ((i_i, j_j) # rest) bound v =
     (let i_i = other_row i_i in
      incident_loop edge_list rest bound
        (if entry edge_list i_i j_j < bound then v[j_j := True] else v))"

definition edge_operator_aij :: "edge_list \<Rightarrow> nat \<Rightarrow> nat \<Rightarrow> error + sparse_pauli_op" where
  "edge_operator_aij edge_list i j =
     (let v = replicate (length edge_list) False;
          w = replicate (length edge_list) False;
          qubit_position_i = np_where_eq edge_list i;
          position_ij = position_loop i j 0 edge_list
      in case np_setitem w position_ij True of
           Inl e \<Rightarrow> Inl e
         | Inr w \<Rightarrow>
             let v = incident_loop edge_list qubit_position_i j v;
                 qubit_position_j = np_where_eq edge_list j;
                 v = incident_loop edge_list qubit_position_j i v
             in Inr (Pauli (v, w)))"

definition edge_operator_bi :: "edge_list \<Rightarrow> nat \<Rightarrow> sparse_pauli_op" where
  "edge_operator_bi edge_list i =
     (let qubit_position = map snd (np_where_eq edge_list i);
          v = replicate (length edge_list) False;
          w = v;
          v = fold (\<lambda>k v. v[k := True]) qubit_position v
      in Pauli (v, w))"

subsection \<open>The conversion formulas\<close>




definition double_excitation ::
  "edge_list \<Rightarrow> nat \<Rightarrow> nat \<Rightarrow> nat \<Rightarrow> nat \<Rightarrow> complex \<Rightarrow> error + sparse_pauli_op" where
  "double_excitation edge_list p q r s h2_pqrs =
     (let b_p = edge_operator_bi edge_list p;
          b_q = edge_operator_bi edge_list q;
          b_r = edge_operator_bi edge_list r;
          b_s = edge_operator_bi edge_list s
      in case edge_operator_aij edge_list p q of
           Inl e \<Rightarrow> Inl e
         | Inr a_pq \<Rightarrow>
        (case edge_operator_aij edge_list r s of
           Inl e \<Rightarrow> Inl e
         | Inr a_rs \<Rightarrow>
             let a_pq = (if q < p then - a_pq else a_pq);
                 a_rs = (if s < r then - a_rs else a_rs);
                 id_op = pauli_id (length edge_list);
                 qubit_op = (a_pq * a_rs) *
                   (- id_op
                    - b_p * b_q
                    + b_p * b_r
                    + b_p * b_s
                    + b_q * b_r
                    + b_q * b_s
                    - b_r * b_s
                    - b_p * b_q * b_r * b_s);
                 final_coeff = 0.125
             in Inr (smul (final_coeff * h2_pqrs) qubit_op)))"

definition number_excitation ::
  "edge_list \<Rightarrow> nat \<Rightarrow> nat \<Rightarrow> nat \<Rightarrow> nat \<Rightarrow> complex \<Rightarrow> error + sparse_pauli_op" where
  "number_excitation edge_list p q r s h2_pqrs =
     (let b_p = edge_operator_bi edge_list p;
          b_q = edge_operator_bi edge_list q;
          id_op = pauli_id (length edge_list)
      in
      if p = r then
        (let b_s = edge_operator_bi edge_list s in
         case edge_operator_aij edge_list q s of
           Inl e \<Rightarrow> Inl e
         | Inr a_qs \<Rightarrow>
             let a_qs = (if s < q then - a_qs else a_qs);
                 qubit_op = (a_qs * b_s + b_q * a_qs) * (id_op - b_p);
                 final_coeff = \<i> * 0.25
             in Inr (smul (final_coeff * h2_pqrs) qubit_op))
      else if p = s then
        (let b_r = edge_operator_bi edge_list r in
         case edge_operator_aij edge_list q r of
           Inl e \<Rightarrow> Inl e
         | Inr a_qr \<Rightarrow>
             let a_qr = (if r < q then - a_qr else a_qr);
                 qubit_op = (a_qr * b_r + b_q * a_qr) * (id_op - b_p);
                 final_coeff = \<i> * - 0.25
             in Inr (smul (final_coeff * h2_pqrs) qubit_op))
      else if q = r then
        (let b_s = edge_operator_bi edge_list s in
         case edge_operator_aij edge_list p s of
           Inl e \<Rightarrow> Inl e
         | Inr a_ps \<Rightarrow>
             let a_ps = (if s < p then - a_ps else a_ps);
                 qubit_op = (a_ps * b_s + b_p * a_ps) * (id_op - b_q);
                 final_coeff = \<i> * - 0.25
             in Inr (smul (final_coeff * h2_pqrs) qubit_op))
      else if q = s then
        (let b_r = edge_operator_bi edge_list r in
         case edge_operator_aij edge_list p r of
           Inl e \<Rightarrow> Inl e
         | Inr a_pr \<Rightarrow>
             let a_pr = (if r < p then - a_pr else a_pr);
                 qubit_op = (a_pr * b_r + b_p * a_pr) * (id_op - b_q);
                 final_coeff = \<i> * 0.25
             in Inr (smul (final_coeff * h2_pqrs) qubit_op))
      else Inl (ValueError ''unexpected sequence of indices''))"

subsection \<open>The graph of a fermionic operator\<close>

text \<open>
  A fermionic operator is the list \<^verbatim>\<open>fer_op.to_list()\<close> of its terms, each an operator
  string with its coefficient. The adjacency matrix is a list of rows. Writing an entry
  outside the matrix raises \<^verbatim>\<open>IndexError\<close>.
\<close>

type_synonym fermionic_op = "(string \<times> complex) list"

type_synonym edge_matrix = "bool list list"

definition operator_string :: "string \<times> complex \<Rightarrow> string" where
  "operator_string term = fst term"


definition number_of_modes :: "fermionic_op \<Rightarrow> error + nat" where
  "number_of_modes fer_op =
     (case fer_op of [] \<Rightarrow> Inl IndexError | term # _ \<Rightarrow> Inr (length (fst term)))"

definition set_true :: "edge_matrix \<Rightarrow> nat \<Rightarrow> nat \<Rightarrow> error + edge_matrix" where
  "set_true edge_matrix r c =
     (if r < length edge_matrix \<and> c < length (edge_matrix ! r)
      then Inr (edge_matrix[r := (edge_matrix ! r)[c := True]])
      else Inl IndexError)"

definition add_one_edge :: "edge_matrix \<Rightarrow> nat \<Rightarrow> nat \<Rightarrow> error + edge_matrix" where
  "add_one_edge edge_matrix i j =
     (if i < j then set_true edge_matrix i j
      else if j < i then set_true edge_matrix j i
      else Inl (ValueError ''expecting i != j''))"

text \<open>\<^verbatim>\<open>_add_one_edge(edge_matrix, *inds)\<close>: the call needs exactly two indices.\<close>

definition add_one_edge_star :: "edge_matrix \<Rightarrow> nat list \<Rightarrow> error + edge_matrix" where
  "add_one_edge_star edge_matrix inds =
     (case inds of [i, j] \<Rightarrow> add_one_edge edge_matrix i j | _ \<Rightarrow> Inl TypeError)"

definition add_edges_for_term :: "edge_matrix \<Rightarrow> string \<Rightarrow> error + edge_matrix" where
  "add_edges_for_term edge_matrix term_str =
     (case unpack_term term_str False of
        Inl e \<Rightarrow> Inl e
      | Inr ((n_number, n_raise, n_lower), facs) \<Rightarrow>
     (case interaction_type n_number n_raise n_lower of
        Inl e \<Rightarrow> Inl e
      | Inr ttype \<Rightarrow>
          if ttype \<in> {''excitation'', ''number_excitation''} then
            (let inds = map fst (filter (\<lambda>(i, c). c \<in> {CHR ''+'', CHR ''-''}) facs) in
             if length inds \<noteq> 2 then Inl (ValueError ''wrong number or raising and lowering'')
             else add_one_edge_star edge_matrix inds)
          else if ttype = ''double_excitation'' then
            (let raise_inds = map fst (filter (\<lambda>(i, c). c = CHR ''+'') facs);
                 lower_inds = map fst (filter (\<lambda>(i, c). c = CHR ''-'') facs)
             in case add_one_edge_star edge_matrix raise_inds of
                  Inl e \<Rightarrow> Inl e
                | Inr edge_matrix \<Rightarrow> add_one_edge_star edge_matrix lower_inds)
          else Inr edge_matrix))"

fun add_edges_loop :: "edge_matrix \<Rightarrow> fermionic_op \<Rightarrow> error + edge_matrix" where
  "add_edges_loop edge_matrix [] = Inr edge_matrix"
| "add_edges_loop edge_matrix (term # rest) =
     (case add_edges_for_term edge_matrix (operator_string term) of
        Inl e \<Rightarrow> Inl e
      | Inr edge_matrix \<Rightarrow> add_edges_loop edge_matrix rest)"

definition get_adjacency_matrix :: "fermionic_op \<Rightarrow> error + edge_matrix" where
  "get_adjacency_matrix fer_op =
     (case number_of_modes fer_op of
        Inl e \<Rightarrow> Inl e
      | Inr n_modes \<Rightarrow>
          add_edges_loop (replicate n_modes (replicate n_modes False)) fer_op)"

text \<open>\<^verbatim>\<open>np.asarray(np.nonzero(edge_matrix))\<close>: the positions of the true entries, row by row.\<close>

definition np_nonzero :: "edge_matrix \<Rightarrow> edge_list" where
  "np_nonzero edge_matrix =
     concat (map (\<lambda>r. map (\<lambda>c. (r, c)) (filter (\<lambda>c. edge_matrix ! r ! c) [0..<length (edge_matrix ! r)]))
                 [0..<length edge_matrix])"

definition bksf_edge_list_fermionic_op :: "fermionic_op \<Rightarrow> error + edge_list" where
  "bksf_edge_list_fermionic_op fer_op_qn =
     (case get_adjacency_matrix fer_op_qn of
        Inl e \<Rightarrow> Inl e
      | Inr edge_matrix \<Rightarrow> Inr (np_nonzero edge_matrix))"

subsection \<open>Conversion of the terms\<close>







section \<open>Notions of the specification\<close>

text \<open>
  The complete graph on four modes, its six edges in row-major order, as built in
  \<^verbatim>\<open>test_bksf_edge_op_bi\<close> and \<^verbatim>\<open>test_bksf_edge_op_aij\<close>.
\<close>

definition complete4 :: edge_list where
  "complete4 = [(0, 1), (0, 2), (0, 3), (1, 2), (1, 3), (2, 3)]"

text \<open>
  A pair of modes is an edge when some column of the edge list holds exactly these two
  modes; the qubit position of the edge is the index of the first such column.
\<close>

definition is_edge :: "edge_list \<Rightarrow> nat \<Rightarrow> nat \<Rightarrow> bool" where
  "is_edge el i j = list_ex (\<lambda>col. {i, j} = {fst col, snd col}) el"

definition edge_position :: "edge_list \<Rightarrow> nat \<Rightarrow> nat \<Rightarrow> nat" where
  "edge_position el i j = length (takeWhile (\<lambda>col. {i, j} \<noteq> {fst col, snd col}) el)"

text \<open>The column is an edge incident to \<open>i\<close> whose other endpoint is strictly less than \<open>j\<close>.\<close>

definition incident_below :: "nat \<Rightarrow> nat \<Rightarrow> nat \<times> nat \<Rightarrow> bool" where
  "incident_below i j col = ((fst col = i \<and> snd col < j) \<or> (snd col = i \<and> fst col < j))"


text \<open>
  The structure that \<^verbatim>\<open>_add_one_edge\<close> maintains: every true entry of the adjacency
  matrix lies strictly above the diagonal.
\<close>

definition upper_triangular :: "edge_matrix \<Rightarrow> bool" where
  "upper_triangular m = (\<forall>r < length m. \<forall>c < length (m ! r). m ! r ! c \<longrightarrow> r < c)"





section \<open>Properties of the edge operators\<close>

lemma nth_update_True: "n < length v \<Longrightarrow> v[k := True] ! n = (v ! n \<or> n = k)"
  by (cases "k = n") auto

lemma fold_set_True:
  "fold (\<lambda>k v. v[k := True]) ks v = map (\<lambda>n. v ! n \<or> n \<in> set ks) [0..<length v]"
proof (induction ks arbitrary: v)
  case Nil
  show ?case by (simp add: map_nth)
next
  case (Cons k ks)
  show ?case
    by (simp add: Cons.IH nth_update_True)
qed

lemma snd_np_where_eq:
  "set (map snd (np_where_eq el i)) = {k. k < length el \<and> (fst (el ! k) = i \<or> snd (el ! k) = i)}"
  by (auto simp: np_where_eq_def)

lemma edge_operator_bi_eq:
  "edge_operator_bi el i =
     SparsePauliOp [\<lparr>coeff = 1, zvec = map (\<lambda>col. fst col = i \<or> snd col = i) el,
                     xvec = replicate (length el) False\<rparr>]"
proof -
  have "map (\<lambda>n. replicate (length el) False ! n \<or> n \<in> set (map snd (np_where_eq el i)))
          [0..<length el] = map (\<lambda>col. fst col = i \<or> snd col = i) el"
    by (rule nth_equalityI) (simp_all add: snd_np_where_eq del: set_map)
  then show ?thesis
    by (simp add: edge_operator_bi_def Pauli_def fold_set_True Let_def del: set_map)
qed

lemma incident_loop_length: "length (incident_loop el qp b v) = length v"
  by (induction el qp b v rule: incident_loop.induct) (simp_all add: Let_def)

lemma incident_loop_nth:
  "n < length v \<Longrightarrow>
   incident_loop el qp b v ! n =
     (v ! n \<or> (\<exists>r. (r, n) \<in> set qp \<and> entry el (other_row r) n < b))"
proof (induction qp arbitrary: v)
  case Nil
  show ?case by simp
next
  case (Cons p rest)
  obtain r c where p: "p = (r, c)" by (cases p)
  define hit where "hit = (entry el (other_row r) c < b)"
  define v' where "v' = (if hit then v[c := True] else v)"
  have len: "n < length v'"
    using Cons.prems by (simp add: v'_def)
  have step: "incident_loop el (p # rest) b v = incident_loop el rest b v'"
    by (simp add: p v'_def hit_def Let_def)
  have here: "v' ! n = (v ! n \<or> (hit \<and> c = n))"
    using Cons.prems by (auto simp: v'_def nth_update_True)
  have "incident_loop el (p # rest) b v ! n =
          (v' ! n \<or> (\<exists>r. (r, n) \<in> set rest \<and> entry el (other_row r) n < b))"
    unfolding step by (rule Cons.IH [OF len])
  also have "\<dots> = (v ! n \<or> (\<exists>r. (r, n) \<in> set (p # rest) \<and> entry el (other_row r) n < b))"
    unfolding here p hit_def by auto
  finally show ?case .
qed

lemma np_where_eq_incident:
  "n < length el \<Longrightarrow>
   (\<exists>r. (r, n) \<in> set (np_where_eq el i) \<and> entry el (other_row r) n < b) =
   incident_below i b (el ! n)"
  by (auto simp: np_where_eq_def entry_def incident_below_def other_row_def)

lemma incident_loops_eq:
  "incident_loop el (np_where_eq el j) i
     (incident_loop el (np_where_eq el i) j (replicate (length el) False)) =
   map (\<lambda>col. incident_below i j col \<or> incident_below j i col) el"
  by (rule nth_equalityI)
     (simp_all add: incident_loop_length incident_loop_nth np_where_eq_incident)

lemma position_loop_eq:
  "position_loop i j k el =
     (if is_edge el i j then int (k + edge_position el i j) else - 1)"
  by (induction el arbitrary: k) (auto simp: is_edge_def edge_position_def)

lemma edge_position_less: "is_edge el i j \<Longrightarrow> edge_position el i j < length el"
  by (induction el) (auto simp: is_edge_def edge_position_def)

lemma edge_position_col:
  "is_edge el i j \<Longrightarrow> {fst (el ! edge_position el i j), snd (el ! edge_position el i j)} = {i, j}"
  by (induction el) (auto simp: is_edge_def edge_position_def)

text \<open>The position written by \<^verbatim>\<open>w[position_ij] = 1\<close>.\<close>

lemma edge_operator_aij_eq:
  "edge_operator_aij el i j =
     (if el = [] then Inl IndexError
      else Inr (SparsePauliOp
             [\<lparr>coeff = 1,
               zvec = map (\<lambda>col. incident_below i j col \<or> incident_below j i col) el,
               xvec = (replicate (length el) False)
                        [(if is_edge el i j then edge_position el i j else length el - 1) := True]\<rparr>]))"
proof (cases "is_edge el i j")
  case True
  then have "el \<noteq> []" by (auto simp: is_edge_def)
  with True show ?thesis
    using edge_position_less [OF True]
    by (simp add: edge_operator_aij_def position_loop_eq np_setitem_def Let_def
        incident_loops_eq Pauli_def)
next
  case False
  have "int (length el) - 1 = int (length el - 1)" if "el \<noteq> []"
    using that by (cases el) simp_all
  with False show ?thesis
    by (simp add: edge_operator_aij_def position_loop_eq np_setitem_def Let_def
        incident_loops_eq Pauli_def nat_diff_distrib')
qed

lemma is_edge_sym: "is_edge el i j = is_edge el j i"
  by (simp add: is_edge_def insert_commute)

lemma edge_position_sym: "edge_position el i j = edge_position el j i"
  by (simp add: edge_position_def insert_commute)

lemma pair_set_eq: "({i, j} = {a, b}) = ((i = a \<and> j = b) \<or> (i = b \<and> j = a))"
  by (auto simp: doubleton_eq_iff)


text \<open>
  Claim C2. For every edge list and every mode \<open>i\<close>, the operator B(i) is the single Pauli
  term with coefficient 1 whose z-vector has a 1 exactly at the positions of the edges
  incident to \<open>i\<close> and whose x-vector is all zero; both vectors have the length of the edge
  list. On the complete graph with four modes, B(0) is Z at the qubits 0, 1, 2 and B(3) is
  Z at the qubits 2, 4, 5.
\<close>

theorem edge_operator_bi_spec:
  "edge_operator_bi el i =
     SparsePauliOp [\<lparr>coeff = 1, zvec = map (\<lambda>col. fst col = i \<or> snd col = i) el,
                     xvec = replicate (length el) False\<rparr>]
   \<and> edge_operator_bi complete4 0 =
       Pauli ([True, True, True, False, False, False],
              [False, False, False, False, False, False])
   \<and> edge_operator_bi complete4 3 =
       Pauli ([False, False, True, False, True, True],
              [False, False, False, False, False, False])"
  by (simp add: edge_operator_bi_eq complete4_def Pauli_def)

text \<open>
  Claim C1, as the specification states it, fails in its example: on the complete graph
  with four modes, A(2,3) is not X at qubit 5 with Z at the qubits 1 and 3 only.
\<close>

theorem edge_operator_aij_example_counterexample:
  "edge_operator_aij complete4 2 3 \<noteq>
     Inr (Pauli ([False, True, False, True, False, False],
                 [False, False, False, False, False, True]))"
  by (simp add: edge_operator_aij_eq complete4_def Pauli_def incident_below_def is_edge_def
      edge_position_def pair_set_eq)

text \<open>
  Claim C1, amended. For every edge list and every pair of modes \<open>(i, j)\<close> that is an edge,
  A(i,j) is a single Pauli term with a coefficient of magnitude 1 and vectors of the
  length of the edge list: the x-vector has a 1 exactly at the position of the edge
  \<open>(i, j)\<close>, and the z-vector has a 1 exactly at every other edge that is incident to \<open>i\<close>
  with its other endpoint below \<open>j\<close>, or incident to \<open>j\<close> with its other endpoint below \<open>i\<close>.
  On the complete graph with four modes, A(0,1) is X at qubit 0 and identity elsewhere,
  and A(2,3) is X at qubit 5 with Z at the qubits 1, 2, 3 and 4.
\<close>

theorem edge_operator_aij_spec:
  "(is_edge el i j \<longrightarrow>
      (\<exists>t. edge_operator_aij el i j = Inr (SparsePauliOp [t])
         \<and> cmod (coeff t) = 1
         \<and> length (zvec t) = length el \<and> length (xvec t) = length el
         \<and> (\<forall>k < length el. xvec t ! k = (k = edge_position el i j))
         \<and> (\<forall>k < length el. zvec t ! k =
               (k \<noteq> edge_position el i j \<and>
                (incident_below i j (el ! k) \<or> incident_below j i (el ! k))))))
   \<and> edge_operator_aij complete4 0 1 =
       Inr (Pauli ([False, False, False, False, False, False],
                   [True, False, False, False, False, False]))
   \<and> edge_operator_aij complete4 2 3 =
       Inr (Pauli ([False, True, True, True, True, False],
                   [False, False, False, False, False, True]))"
proof (intro conjI impI)
  assume e: "is_edge el i j"
  define p where "p = edge_position el i j"
  have p: "p < length el"
    unfolding p_def by (rule edge_position_less [OF e])
  have col: "{fst (el ! p), snd (el ! p)} = {i, j}"
    unfolding p_def by (rule edge_position_col [OF e])
  have here: "\<not> (incident_below i j (el ! p) \<or> incident_below j i (el ! p))"
    using col by (auto simp: incident_below_def doubleton_eq_iff)
  have ne: "el \<noteq> []"
    using p by auto
  let ?t = "\<lparr>coeff = 1,
             zvec = map (\<lambda>col. incident_below i j col \<or> incident_below j i col) el,
             xvec = (replicate (length el) False)[p := True]\<rparr>"
  have "edge_operator_aij el i j = Inr (SparsePauliOp [?t])"
    using e ne by (simp add: edge_operator_aij_eq p_def)
  moreover have "\<forall>k < length el. xvec ?t ! k = (k = p)"
    by (simp add: nth_update_True)
  moreover have "\<forall>k < length el. zvec ?t ! k =
      (k \<noteq> p \<and> (incident_below i j (el ! k) \<or> incident_below j i (el ! k)))"
    using here by auto
  ultimately show "\<exists>t. edge_operator_aij el i j = Inr (SparsePauliOp [t])
         \<and> cmod (coeff t) = 1
         \<and> length (zvec t) = length el \<and> length (xvec t) = length el
         \<and> (\<forall>k < length el. xvec t ! k = (k = edge_position el i j))
         \<and> (\<forall>k < length el. zvec t ! k =
               (k \<noteq> edge_position el i j \<and>
                (incident_below i j (el ! k) \<or> incident_below j i (el ! k))))"
    unfolding p_def [symmetric] by (intro exI [of _ ?t]) simp
next
  show "edge_operator_aij complete4 0 1 =
       Inr (Pauli ([False, False, False, False, False, False],
                   [True, False, False, False, False, False]))"
    by (simp add: edge_operator_aij_eq complete4_def Pauli_def incident_below_def is_edge_def
        edge_position_def pair_set_eq)
next
  show "edge_operator_aij complete4 2 3 =
       Inr (Pauli ([False, True, True, True, True, False],
                   [False, False, False, False, False, True]))"
    by (simp add: edge_operator_aij_eq complete4_def Pauli_def incident_below_def is_edge_def
        edge_position_def pair_set_eq)
qed

theorem edge_operator_aij_spec_witness:
  "is_edge complete4 1 3 \<and>
   (\<exists>t. edge_operator_aij complete4 1 3 = Inr (SparsePauliOp [t])
      \<and> cmod (coeff t) = 1
      \<and> length (zvec t) = length complete4 \<and> length (xvec t) = length complete4
      \<and> (\<forall>k < length complete4. xvec t ! k = (k = edge_position complete4 1 3))
      \<and> (\<forall>k < length complete4. zvec t ! k =
            (k \<noteq> edge_position complete4 1 3 \<and>
             (incident_below 1 3 (complete4 ! k) \<or> incident_below 3 1 (complete4 ! k)))))"
proof -
  have e: "is_edge complete4 1 3"
    by (simp add: is_edge_def complete4_def pair_set_eq)
  show ?thesis
    using e edge_operator_aij_spec [of complete4 1 3] by blast
qed

text \<open>
  Claim C8 fails on the code: on the edge list \<open>[(0, 2), (1, 3)]\<close> of the operator
  \<^verbatim>\<open>+-+-\<close> the pair \<open>(0, 1)\<close> is not an edge, and A(0,1) returns a Pauli term, with X at
  the last qubit: \<^verbatim>\<open>position_ij\<close> is still \<open>-1\<close> when it is used as an index.
\<close>

theorem edge_operator_aij_missing_edge:
  "\<not> is_edge [(0, 2), (1, 3)] 0 1 \<and>
   edge_operator_aij [(0, 2), (1, 3)] 0 1 = Inr (Pauli ([False, False], [False, True]))"
  by (simp add: edge_operator_aij_eq Pauli_def incident_below_def is_edge_def
      edge_position_def pair_set_eq)

text \<open>
  Claim C10. For every edge list and every pair of modes, the function computes the same
  result for the argument orders \<open>(i, j)\<close> and \<open>(j, i)\<close>.
\<close>

theorem edge_operator_aij_symmetric:
  "edge_operator_aij el i j = edge_operator_aij el j i"
proof -
  have "(\<lambda>col. incident_below i j col \<or> incident_below j i col) =
        (\<lambda>col. incident_below j i col \<or> incident_below i j col)"
    by auto
  then show ?thesis
    by (simp add: edge_operator_aij_eq is_edge_sym [of el i j] edge_position_sym [of el i j])
qed

text \<open>
  Claim C7 fails on the code: one number operator with two raising and two lowering
  operators is none of the five rows of the table, and the classifier returns
  \<^verbatim>\<open>double_excitation\<close> for it.
\<close>

theorem interaction_type_number_with_double:
  "interaction_type 1 2 2 = Inr ''double_excitation''"
  by (simp add: interaction_type_def)

section \<open>Properties of the reordering and of the conversion formulas\<close>

text \<open>
  Claim C5. For every list of four factors in ascending mode order, the reordering
  returns the list unchanged with phase 1 for the kinds \<open>(+,+,-,-)\<close>, the factors
  0, 2, 1, 3 with phase -1 for \<open>(+,-,+,-)\<close>, the factors 0, 3, 1, 2 with phase 1 for
  \<open>(+,-,-,+)\<close>, and raises an error for every other sequence of kinds; each result has
  the two raising factors in ascending mode order followed by the two lowering factors
  in ascending mode order.
\<close>

theorem to_physicist_index_order_spec:
  assumes "length facs = 4" and "sorted (map fst facs)"
  shows "(map snd facs = [CHR ''+'', CHR ''+'', CHR ''-'', CHR ''-''] \<longrightarrow>
            to_physicist_index_order facs = Inr (facs, 1))
       \<and> (map snd facs = [CHR ''+'', CHR ''-'', CHR ''+'', CHR ''-''] \<longrightarrow>
            to_physicist_index_order facs = Inr ([facs ! 0, facs ! 2, facs ! 1, facs ! 3], - 1))
       \<and> (map snd facs = [CHR ''+'', CHR ''-'', CHR ''-'', CHR ''+''] \<longrightarrow>
            to_physicist_index_order facs = Inr ([facs ! 0, facs ! 3, facs ! 1, facs ! 2], 1))
       \<and> (map snd facs \<noteq> [CHR ''+'', CHR ''+'', CHR ''-'', CHR ''-''] \<and>
          map snd facs \<noteq> [CHR ''+'', CHR ''-'', CHR ''+'', CHR ''-''] \<and>
          map snd facs \<noteq> [CHR ''+'', CHR ''-'', CHR ''-'', CHR ''+''] \<longrightarrow>
            to_physicist_index_order facs =
              Inl (ValueError ''unexpected sequence of operators''))
       \<and> (\<forall>facs_out phase. to_physicist_index_order facs = Inr (facs_out, phase) \<longrightarrow>
            map snd facs_out = [CHR ''+'', CHR ''+'', CHR ''-'', CHR ''-''] \<and>
            fst (facs_out ! 0) \<le> fst (facs_out ! 1) \<and>
            fst (facs_out ! 2) \<le> fst (facs_out ! 3))"
proof -
  from assms(1) obtain a b c d where facs: "facs = [a, b, c, d]"
    by (auto simp: length_Suc_conv numeral_eq_Suc)
  from assms(2) have le: "fst a \<le> fst b" "fst b \<le> fst c" "fst c \<le> fst d"
    by (simp_all add: facs)
  show ?thesis
    using le by (auto simp: facs to_physicist_index_order_def Let_def)
qed

theorem to_physicist_index_order_spec_witness:
  "length [(0, CHR ''+''), (1, CHR ''-''), (2, CHR ''+''), (3 :: nat, CHR ''-'')] = 4
   \<and> sorted (map fst [(0, CHR ''+''), (1, CHR ''-''), (2, CHR ''+''), (3 :: nat, CHR ''-'')])
   \<and> to_physicist_index_order [(0, CHR ''+''), (1, CHR ''-''), (2, CHR ''+''), (3, CHR ''-'')] =
       Inr ([(0, CHR ''+''), (2, CHR ''+''), (1, CHR ''-''), (3, CHR ''-'')], - 1)"
proof -
  have l: "length [(0, CHR ''+''), (1, CHR ''-''), (2, CHR ''+''), (3 :: nat, CHR ''-'')] = 4"
    by simp
  have s: "sorted (map fst [(0, CHR ''+''), (1, CHR ''-''), (2, CHR ''+''), (3 :: nat, CHR ''-'')])"
    by simp
  show ?thesis
    using l s to_physicist_index_order_spec [OF l s] by simp
qed

lemma edge_operator_aij_total: "el \<noteq> [] \<Longrightarrow> \<exists>a. edge_operator_aij el i j = Inr a"
  by (simp add: edge_operator_aij_eq)

text \<open>
  Claim C3. For every quadruple of modes \<open>(p, q, r, s)\<close> and every coefficient \<open>h\<close>, on an
  edge list that is not empty, the conversion of a double excitation returns \<open>h / 8\<close>
  times \<open>A'(p,q) A'(r,s)\<close> times
  \<open>- I - B(p)B(q) + B(p)B(r) + B(p)B(s) + B(q)B(r) + B(q)B(s) - B(r)B(s) - B(p)B(q)B(r)B(s)\<close>,
  where \<open>A'(p,q)\<close> is \<open>A(p,q)\<close>, negated exactly when \<open>q < p\<close>, and \<open>A'(r,s)\<close> is \<open>A(r,s)\<close>,
  negated exactly when \<open>s < r\<close>.
\<close>

theorem double_excitation_spec:
  assumes "el \<noteq> []"
  shows "\<exists>a_pq a_rs.
     edge_operator_aij el p q = Inr a_pq \<and> edge_operator_aij el r s = Inr a_rs \<and>
     double_excitation el p q r s h =
     Inr (smul (h / 8)
       (((if q < p then - a_pq else a_pq) * (if s < r then - a_rs else a_rs)) *
        (- pauli_id (length el)
         - edge_operator_bi el p * edge_operator_bi el q
         + edge_operator_bi el p * edge_operator_bi el r
         + edge_operator_bi el p * edge_operator_bi el s
         + edge_operator_bi el q * edge_operator_bi el r
         + edge_operator_bi el q * edge_operator_bi el s
         - edge_operator_bi el r * edge_operator_bi el s
         - edge_operator_bi el p * edge_operator_bi el q
             * edge_operator_bi el r * edge_operator_bi el s)))"
proof -
  from assms obtain a_pq a_rs
    where a: "edge_operator_aij el p q = Inr a_pq" "edge_operator_aij el r s = Inr a_rs"
    using edge_operator_aij_total by blast
  have "0.125 * h = h / 8"
    by simp
  then have "double_excitation el p q r s h =
     Inr (smul (h / 8)
       (((if q < p then - a_pq else a_pq) * (if s < r then - a_rs else a_rs)) *
        (- pauli_id (length el)
         - edge_operator_bi el p * edge_operator_bi el q
         + edge_operator_bi el p * edge_operator_bi el r
         + edge_operator_bi el p * edge_operator_bi el s
         + edge_operator_bi el q * edge_operator_bi el r
         + edge_operator_bi el q * edge_operator_bi el s
         - edge_operator_bi el r * edge_operator_bi el s
         - edge_operator_bi el p * edge_operator_bi el q
             * edge_operator_bi el r * edge_operator_bi el s)))"
    by (simp only: double_excitation_def Let_def a sum.case)
  with a show ?thesis
    by blast
qed

theorem double_excitation_spec_witness:
  "complete4 \<noteq> []
   \<and> edge_operator_aij complete4 1 0 =
     Inr (Pauli ([False, False, False, False, False, False],
                 [True, False, False, False, False, False]))
   \<and> edge_operator_aij complete4 2 3 =
     Inr (Pauli ([False, True, True, True, True, False],
                 [False, False, False, False, False, True]))
   \<and> double_excitation complete4 1 0 2 3 1 =
     Inr (smul (1 / 8)
       ((- Pauli ([False, False, False, False, False, False],
                  [True, False, False, False, False, False])
         * Pauli ([False, True, True, True, True, False],
                  [False, False, False, False, False, True])) *
        (- pauli_id (length complete4)
         - edge_operator_bi complete4 1 * edge_operator_bi complete4 0
         + edge_operator_bi complete4 1 * edge_operator_bi complete4 2
         + edge_operator_bi complete4 1 * edge_operator_bi complete4 3
         + edge_operator_bi complete4 0 * edge_operator_bi complete4 2
         + edge_operator_bi complete4 0 * edge_operator_bi complete4 3
         - edge_operator_bi complete4 2 * edge_operator_bi complete4 3
         - edge_operator_bi complete4 1 * edge_operator_bi complete4 0
             * edge_operator_bi complete4 2 * edge_operator_bi complete4 3)))"
proof -
  have a10: "edge_operator_aij complete4 1 0 =
     Inr (Pauli ([False, False, False, False, False, False],
                 [True, False, False, False, False, False]))"
    by (simp add: edge_operator_aij_eq complete4_def Pauli_def incident_below_def is_edge_def
        edge_position_def pair_set_eq)
  have a23: "edge_operator_aij complete4 2 3 =
     Inr (Pauli ([False, True, True, True, True, False],
                 [False, False, False, False, False, True]))"
    by (simp add: edge_operator_aij_eq complete4_def Pauli_def incident_below_def is_edge_def
        edge_position_def pair_set_eq)
  have ne: "complete4 \<noteq> []"
    by (simp add: complete4_def)
  show ?thesis
    using ne a10 a23
      double_excitation_spec [OF ne, where p = 1 and q = 0 and r = 2 and s = 3 and h = 1]
    by auto
qed

text \<open>
  Claim C4. For every quadruple \<open>(p, q, r, s)\<close> with exactly one of \<open>p = r\<close>, \<open>p = s\<close>,
  \<open>q = r\<close>, \<open>q = s\<close> and every coefficient \<open>h\<close>, on an edge list that is not empty, the
  conversion of a number excitation returns \<^verbatim>\<open>(A * B_third + B_other * A) * (I - B_shared)\<close>
  scaled by \<open>i h / 4\<close> when \<open>p = r\<close>, by \<open>- i h / 4\<close>
  when \<open>p = s\<close>, by \<open>- i h / 4\<close> when \<open>q = r\<close> and by \<open>i h / 4\<close> when \<open>q = s\<close>, where \<open>A\<close> is the
  edge operator of the two modes that are not shared, negated when its second mode is
  below its first; for a quadruple with none of the four equalities it raises an error.
\<close>

theorem number_excitation_spec:
  assumes "el \<noteq> []"
  shows "(p = r \<and> p \<noteq> s \<and> q \<noteq> r \<and> q \<noteq> s \<longrightarrow>
      (\<exists>a. edge_operator_aij el q s = Inr a \<and>
         number_excitation el p q r s h =
           Inr (smul (\<i> * h / 4)
             (((if s < q then - a else a) * edge_operator_bi el s
               + edge_operator_bi el q * (if s < q then - a else a))
              * (pauli_id (length el) - edge_operator_bi el p)))))
   \<and> (p \<noteq> r \<and> p = s \<and> q \<noteq> r \<and> q \<noteq> s \<longrightarrow>
      (\<exists>a. edge_operator_aij el q r = Inr a \<and>
         number_excitation el p q r s h =
           Inr (smul (- \<i> * h / 4)
             (((if r < q then - a else a) * edge_operator_bi el r
               + edge_operator_bi el q * (if r < q then - a else a))
              * (pauli_id (length el) - edge_operator_bi el p)))))
   \<and> (p \<noteq> r \<and> p \<noteq> s \<and> q = r \<and> q \<noteq> s \<longrightarrow>
      (\<exists>a. edge_operator_aij el p s = Inr a \<and>
         number_excitation el p q r s h =
           Inr (smul (- \<i> * h / 4)
             (((if s < p then - a else a) * edge_operator_bi el s
               + edge_operator_bi el p * (if s < p then - a else a))
              * (pauli_id (length el) - edge_operator_bi el q)))))
   \<and> (p \<noteq> r \<and> p \<noteq> s \<and> q \<noteq> r \<and> q = s \<longrightarrow>
      (\<exists>a. edge_operator_aij el p r = Inr a \<and>
         number_excitation el p q r s h =
           Inr (smul (\<i> * h / 4)
             (((if r < p then - a else a) * edge_operator_bi el r
               + edge_operator_bi el p * (if r < p then - a else a))
              * (pauli_id (length el) - edge_operator_bi el q)))))
   \<and> (p \<noteq> r \<and> p \<noteq> s \<and> q \<noteq> r \<and> q \<noteq> s \<longrightarrow>
      number_excitation el p q r s h = Inl (ValueError ''unexpected sequence of indices''))"
proof -
  have c: "\<i> * 0.25 * h = \<i> * h / 4" "\<i> * - 0.25 * h = - \<i> * h / 4"
    by simp_all
  from assms obtain a1 a2 a3 a4
    where a: "edge_operator_aij el q s = Inr a1" "edge_operator_aij el q r = Inr a2"
      "edge_operator_aij el p s = Inr a3" "edge_operator_aij el p r = Inr a4"
    using edge_operator_aij_total by metis
  show ?thesis
    by (simp add: number_excitation_def Let_def c a)
qed

theorem number_excitation_spec_witness:
  "complete4 \<noteq> []
   \<and> edge_operator_aij complete4 1 2 = Inr (Pauli ([True, True, False, False, False, False], [False, False, False, True, False, False]))
   \<and> number_excitation complete4 0 1 0 2 1 =
       Inr (smul (\<i> * 1 / 4)
         (((Pauli ([True, True, False, False, False, False], [False, False, False, True, False, False])) * edge_operator_bi complete4 2
           + edge_operator_bi complete4 1 * (Pauli ([True, True, False, False, False, False], [False, False, False, True, False, False])))
          * (pauli_id (length complete4) - edge_operator_bi complete4 0)))
   \<and> edge_operator_aij complete4 3 1 = Inr (Pauli ([True, False, True, True, False, False], [False, False, False, False, True, False]))
   \<and> number_excitation complete4 2 3 1 2 1 =
       Inr (smul (- \<i> * 1 / 4)
         (((- Pauli ([True, False, True, True, False, False], [False, False, False, False, True, False])) * edge_operator_bi complete4 1
           + edge_operator_bi complete4 3 * (- Pauli ([True, False, True, True, False, False], [False, False, False, False, True, False])))
          * (pauli_id (length complete4) - edge_operator_bi complete4 2)))
   \<and> edge_operator_aij complete4 0 2 = Inr (Pauli ([True, False, False, False, False, False], [False, True, False, False, False, False]))
   \<and> number_excitation complete4 0 1 1 2 1 =
       Inr (smul (- \<i> * 1 / 4)
         (((Pauli ([True, False, False, False, False, False], [False, True, False, False, False, False])) * edge_operator_bi complete4 2
           + edge_operator_bi complete4 0 * (Pauli ([True, False, False, False, False, False], [False, True, False, False, False, False])))
          * (pauli_id (length complete4) - edge_operator_bi complete4 1)))
   \<and> edge_operator_aij complete4 0 1 = Inr (Pauli ([False, False, False, False, False, False], [True, False, False, False, False, False]))
   \<and> number_excitation complete4 0 2 1 2 1 =
       Inr (smul (\<i> * 1 / 4)
         (((Pauli ([False, False, False, False, False, False], [True, False, False, False, False, False])) * edge_operator_bi complete4 1
           + edge_operator_bi complete4 0 * (Pauli ([False, False, False, False, False, False], [True, False, False, False, False, False])))
          * (pauli_id (length complete4) - edge_operator_bi complete4 2)))
   \<and> number_excitation complete4 0 1 2 3 1 = Inl (ValueError ''unexpected sequence of indices'')"
proof -
  have ne: "complete4 \<noteq> []"
    by (simp add: complete4_def)
  have a0: "edge_operator_aij complete4 1 2 = Inr (Pauli ([True, True, False, False, False, False], [False, False, False, True, False, False]))"
    by (simp add: edge_operator_aij_eq complete4_def Pauli_def incident_below_def is_edge_def
        edge_position_def pair_set_eq)
  have r0: "number_excitation complete4 0 1 0 2 1 =
       Inr (smul (\<i> * 1 / 4)
         (((Pauli ([True, True, False, False, False, False], [False, False, False, True, False, False])) * edge_operator_bi complete4 2
           + edge_operator_bi complete4 1 * (Pauli ([True, True, False, False, False, False], [False, False, False, True, False, False])))
          * (pauli_id (length complete4) - edge_operator_bi complete4 0)))"
    using a0 number_excitation_spec [OF ne, where p = 0 and q = 1 and r = 0 and s = 2 and h = 1]
    by auto
  have a1: "edge_operator_aij complete4 3 1 = Inr (Pauli ([True, False, True, True, False, False], [False, False, False, False, True, False]))"
    by (simp add: edge_operator_aij_eq complete4_def Pauli_def incident_below_def is_edge_def
        edge_position_def pair_set_eq)
  have r1: "number_excitation complete4 2 3 1 2 1 =
       Inr (smul (- \<i> * 1 / 4)
         (((- Pauli ([True, False, True, True, False, False], [False, False, False, False, True, False])) * edge_operator_bi complete4 1
           + edge_operator_bi complete4 3 * (- Pauli ([True, False, True, True, False, False], [False, False, False, False, True, False])))
          * (pauli_id (length complete4) - edge_operator_bi complete4 2)))"
    using a1 number_excitation_spec [OF ne, where p = 2 and q = 3 and r = 1 and s = 2 and h = 1]
    by auto
  have a2: "edge_operator_aij complete4 0 2 = Inr (Pauli ([True, False, False, False, False, False], [False, True, False, False, False, False]))"
    by (simp add: edge_operator_aij_eq complete4_def Pauli_def incident_below_def is_edge_def
        edge_position_def pair_set_eq)
  have r2: "number_excitation complete4 0 1 1 2 1 =
       Inr (smul (- \<i> * 1 / 4)
         (((Pauli ([True, False, False, False, False, False], [False, True, False, False, False, False])) * edge_operator_bi complete4 2
           + edge_operator_bi complete4 0 * (Pauli ([True, False, False, False, False, False], [False, True, False, False, False, False])))
          * (pauli_id (length complete4) - edge_operator_bi complete4 1)))"
    using a2 number_excitation_spec [OF ne, where p = 0 and q = 1 and r = 1 and s = 2 and h = 1]
    by auto
  have a3: "edge_operator_aij complete4 0 1 = Inr (Pauli ([False, False, False, False, False, False], [True, False, False, False, False, False]))"
    by (simp add: edge_operator_aij_eq complete4_def Pauli_def incident_below_def is_edge_def
        edge_position_def pair_set_eq)
  have r3: "number_excitation complete4 0 2 1 2 1 =
       Inr (smul (\<i> * 1 / 4)
         (((Pauli ([False, False, False, False, False, False], [True, False, False, False, False, False])) * edge_operator_bi complete4 1
           + edge_operator_bi complete4 0 * (Pauli ([False, False, False, False, False, False], [True, False, False, False, False, False])))
          * (pauli_id (length complete4) - edge_operator_bi complete4 2)))"
    using a3 number_excitation_spec [OF ne, where p = 0 and q = 2 and r = 1 and s = 2 and h = 1]
    by auto
  have r4: "number_excitation complete4 0 1 2 3 1 = Inl (ValueError ''unexpected sequence of indices'')"
    using number_excitation_spec [OF ne, where p = 0 and q = 1 and r = 2 and s = 3 and h = 1]
    by simp
  show ?thesis
    using ne a0 a1 a2 a3 r0 r1 r2 r3 r4 by (intro conjI)
qed

section \<open>Properties of the graph\<close>

lemma set_true_upper:
  assumes "upper_triangular m" and "r < c" and "set_true m r c = Inr m'"
  shows "upper_triangular m'"
proof -
  from assms(3) have r: "r < length m" and m': "m' = m[r := (m ! r)[c := True]]"
    by (auto simp: set_true_def split: if_splits)
  show ?thesis
    unfolding upper_triangular_def
  proof (intro allI impI)
    fix r' c'
    assume r': "r' < length m'" and c': "c' < length (m' ! r')" and t: "m' ! r' ! c'"
    show "r' < c'"
    proof (cases "r' = r")
      case True
      show ?thesis
      proof (cases "c' = c")
        case True
        with \<open>r' = r\<close> assms(2) show ?thesis by simp
      next
        case False
        with True r c' t have "c' < length (m ! r) \<and> m ! r ! c'"
          by (simp add: m')
        with assms(1) r True show ?thesis
          by (simp add: upper_triangular_def)
      qed
    next
      case False
      with r' c' t have "r' < length m \<and> c' < length (m ! r') \<and> m ! r' ! c'"
        by (simp add: m')
      with assms(1) show ?thesis
        by (simp add: upper_triangular_def)
    qed
  qed
qed

lemma add_one_edge_upper:
  "upper_triangular m \<Longrightarrow> add_one_edge m i j = Inr m' \<Longrightarrow> upper_triangular m'"
  by (auto simp: add_one_edge_def split: if_splits intro: set_true_upper)

lemma add_one_edge_star_upper:
  "upper_triangular m \<Longrightarrow> add_one_edge_star m inds = Inr m' \<Longrightarrow> upper_triangular m'"
  by (auto simp: add_one_edge_star_def split: list.splits intro: add_one_edge_upper)

lemma add_edges_for_term_upper:
  assumes "upper_triangular m" and "add_edges_for_term m term_str = Inr m'"
  shows "upper_triangular m'"
  using assms
  by (auto simp: add_edges_for_term_def Let_def split: sum.splits prod.splits if_splits
      dest: add_one_edge_star_upper)

lemma add_edges_loop_upper:
  "upper_triangular m \<Longrightarrow> add_edges_loop m fer_op = Inr m' \<Longrightarrow> upper_triangular m'"
proof (induction fer_op arbitrary: m)
  case Nil
  then show ?case by simp
next
  case (Cons t rest)
  then show ?case
    by (auto split: sum.splits dest: add_edges_for_term_upper)
qed

lemma zeros_upper: "upper_triangular (replicate n (replicate n False))"
  by (simp add: upper_triangular_def)

lemma get_adjacency_matrix_upper:
  "get_adjacency_matrix fer_op = Inr m \<Longrightarrow> upper_triangular m"
  by (auto simp: get_adjacency_matrix_def split: sum.splits
      intro: add_edges_loop_upper [OF zeros_upper])

lemma set_np_nonzero:
  "set (np_nonzero m) = {(r, c). r < length m \<and> c < length (m ! r) \<and> m ! r ! c}"
  by (auto simp: np_nonzero_def)

lemma distinct_rows:
  "distinct rs \<Longrightarrow> (\<And>r. distinct (f r)) \<Longrightarrow>
   distinct (concat (map (\<lambda>r. map (\<lambda>c. (r, c)) (f r)) rs))"
  by (induction rs) (auto simp: distinct_map inj_on_def)

lemma distinct_np_nonzero: "distinct (np_nonzero m)"
  unfolding np_nonzero_def by (rule distinct_rows) simp_all

lemma set_true_idem: "set_true m r c = Inr m' \<Longrightarrow> set_true m' r c = Inr m'"
  by (auto simp: set_true_def split: if_splits)


text \<open>
  Claim C9. For every fermionic operator, the edge list built from it has no duplicate
  edges and every edge \<open>(a, b)\<close> of it has \<open>a < b\<close>; adding an edge between a mode and
  itself raises an error, and adding the same unordered edge a second time leaves the
  graph unchanged.
\<close>

theorem bksf_edge_list_spec:
  "(bksf_edge_list_fermionic_op fer_op = Inr el \<longrightarrow>
      distinct el \<and> (\<forall>(a, b) \<in> set el. a < b))
   \<and> add_one_edge m i i = Inl (ValueError ''expecting i != j'')
   \<and> (add_one_edge m i j = Inr m' \<longrightarrow>
        add_one_edge m' i j = Inr m' \<and> add_one_edge m' j i = Inr m')"
proof (intro conjI impI)
  assume "bksf_edge_list_fermionic_op fer_op = Inr el"
  then obtain mat where mat: "get_adjacency_matrix fer_op = Inr mat"
    and el: "el = np_nonzero mat"
    by (auto simp: bksf_edge_list_fermionic_op_def split: sum.splits)
  have "upper_triangular mat"
    by (rule get_adjacency_matrix_upper [OF mat])
  then show "\<forall>(a, b) \<in> set el. a < b"
    by (auto simp: el set_np_nonzero upper_triangular_def)
  show "distinct el"
    unfolding el by (rule distinct_np_nonzero)
next
  show "add_one_edge m i i = Inl (ValueError ''expecting i != j'')"
    by (simp add: add_one_edge_def)
next
  assume a: "add_one_edge m i j = Inr m'"
  then show "add_one_edge m' i j = Inr m'"
    by (auto simp: add_one_edge_def split: if_splits dest: set_true_idem)
  from a show "add_one_edge m' j i = Inr m'"
    by (auto simp: add_one_edge_def split: if_splits dest: set_true_idem)
qed

theorem bksf_edge_list_spec_witness:
  "bksf_edge_list_fermionic_op [(''+-+-'', 1)] = Inr [(0, 2), (1, 3)]
   \<and> distinct [(0 :: nat, 2 :: nat), (1, 3)]
   \<and> (0 :: nat) < 2 \<and> (1 :: nat) < 3
   \<and> add_one_edge [[False, False], [False, False]] 1 0 = Inr [[False, True], [False, False]]
   \<and> add_one_edge [[False, True], [False, False]] 1 0 = Inr [[False, True], [False, False]]
   \<and> add_one_edge [[False, True], [False, False]] 0 1 = Inr [[False, True], [False, False]]"
proof -
  have e: "bksf_edge_list_fermionic_op [(''+-+-'', 1)] = Inr [(0, 2), (1, 3)]"
    by (simp add: bksf_edge_list_fermionic_op_def get_adjacency_matrix_def number_of_modes_def
        operator_string_def add_edges_for_term_def unpack_term_def interaction_type_def
        add_one_edge_star_def add_one_edge_def set_true_def np_nonzero_def Let_def
        upt_conv_Cons numeral_eq_Suc)
  have a: "add_one_edge [[False, False], [False, False]] 1 0 = Inr [[False, True], [False, False]]"
    by (simp add: add_one_edge_def set_true_def)
  show ?thesis
    using e a
      bksf_edge_list_spec [where fer_op = "[(''+-+-'', 1)]" and el = "[(0, 2), (1, 3)]"
        and m = "[[False, False], [False, False]]" and i = 1 and j = 0
        and m' = "[[False, True], [False, False]]"]
    by simp
qed

section \<open>Properties of the conversion loop\<close>

subsection \<open>The sums that the formulas return are not empty\<close>

lemma terms_smul [simp]: "(terms (smul c a) = []) = (terms a = [])"
  by (simp add: smul_def)

lemma terms_uminus [simp]: "(terms (- a) = []) = (terms a = [])"
  by (simp add: uminus_sparse_pauli_op_def)

lemma terms_plus [simp]: "(terms (a + b) = []) = (terms a = [] \<and> terms b = [])"
  by (simp add: plus_sparse_pauli_op_def)

lemma terms_minus [simp]: "(terms (a - b) = []) = (terms a = [] \<and> terms b = [])"
  by (simp add: minus_sparse_pauli_op_def)

lemma terms_times [simp]: "(terms (a * b) = []) = (terms a = [] \<or> terms b = [])"
  by (cases "terms a"; cases "terms b") (simp_all add: times_sparse_pauli_op_def)

lemma terms_compose [simp]: "(terms (compose a b) = []) = (terms a = [] \<or> terms b = [])"
  by (cases "terms a"; cases "terms b") (simp_all add: compose_def)

lemma terms_Pauli [simp]: "terms (Pauli vw) \<noteq> []"
  by (simp add: Pauli_def)

lemma terms_pauli_id [simp]: "terms (pauli_id n) \<noteq> []"
  by (simp add: pauli_id_def)

lemma terms_bi [simp]: "terms (edge_operator_bi el i) \<noteq> []"
  by (simp add: edge_operator_bi_eq)










subsection \<open>The factor list of an operator string\<close>









subsection \<open>The skip test read off the operator string\<close>




subsection \<open>Hermitian conjugates\<close>






lemma count_list_pos: "0 < count_list xs x \<Longrightarrow> xs \<noteq> []"
  by auto








end
